theory Spec2Isabelle
  imports Complex_Main "HOL-Library.AList" "HOL-Library.Log_Nat"
begin

section \<open>Documents and collections\<close>

text \<open>
  The server stores untyped JSON documents in five collections of a document database.
  A document is the list of its fields in order. Field values are the JSON scalars and the
  database's object ids; nested documents, arrays and query-operator objects are outside
  this model. A JSON number is given by its rational value; the runtime holds it as the
  nearest double, so wherever the code tests or computes with a number it is read through
  \<open>fl\<close> below.
\<close>

datatype json = JNull | JBool bool | JNum rat | JStr string | JOid string

type_synonym doc = "(string \<times> json) list"

subsection \<open>Numbers\<close>

text \<open>
  JavaScript numbers are IEEE 754 doubles. A finite double is given by its exact rational
  value (the two zeros are both 0). \<open>fl\<close> rounds a rational to the nearest double, ties
  to the even significand: 53 significant bits, the spacing of the subnormals below
  \<open>2 powi - 1022\<close>, overflow to infinity from \<open>2 ^ 1024\<close>.
\<close>

datatype number = NaN | Infinity bool | Finite rat

definition round_even :: "rat \<Rightarrow> int" where
  "round_even x =
     (let f = \<lfloor>x\<rfloor>; r = x - of_int f
      in if r < 1 / 2 then f else if 1 / 2 < r then f + 1 else if even f then f else f + 1)"

text \<open>For \<open>q > 0\<close>, the exponent \<open>e\<close> with \<open>2 powi e \<le> q < 2 powi (e + 1)\<close>.\<close>

definition ilog2 :: "rat \<Rightarrow> int" where
  "ilog2 q =
     (case quotient_of q of
        (a, b) \<Rightarrow> (let e = bitlen a - bitlen b in if 2 powi e \<le> q then e else e - 1))"

definition fl :: "rat \<Rightarrow> number" where
  "fl q =
     (if q = 0 then Finite 0
      else (let e = max (ilog2 \<bar>q\<bar>) (- 1022);
                ulp = 2 powi (e - 52);
                y = of_int (round_even (q / ulp)) * ulp
            in if 2 ^ 1024 \<le> \<bar>y\<bar> then Infinity (0 < q) else Finite y))"

subsection \<open>Object ids and queries\<close>

datatype exn = BSONError | TypeError | MongoServerError | JsonWebTokenError
  | TokenExpiredError | FirebaseAuthError | StripeError

text \<open>
  \<open>new ObjectId(id)\<close> of the bson library on a string: a string of 24 hexadecimal
  characters is accepted and denotes twelve bytes (so the case of the letters does not
  matter); any other string makes the constructor throw.
\<close>

definition hex_digit :: "char \<Rightarrow> bool" where
  "hex_digit c = (c \<in> set ''0123456789abcdefABCDEF'')"

definition lower_hex :: "char \<Rightarrow> char" where
  "lower_hex c =
     (if c = CHR ''A'' then CHR ''a'' else if c = CHR ''B'' then CHR ''b''
      else if c = CHR ''C'' then CHR ''c'' else if c = CHR ''D'' then CHR ''d''
      else if c = CHR ''E'' then CHR ''e'' else if c = CHR ''F'' then CHR ''f'' else c)"

definition ObjectId :: "string \<Rightarrow> exn + string" where
  "ObjectId s =
     (if length s = 24 \<and> list_all hex_digit s then Inr (map lower_hex s) else Inl BSONError)"

text \<open>
  A JavaScript property read \<open>d.k\<close> is \<open>map_of d k\<close>, with \<open>None\<close> for
  \<open>undefined\<close>. In a query filter the driver writes \<open>undefined\<close> as null, and the
  database's equality match \<open>{k: v}\<close> with \<open>v\<close> null selects the documents whose field
  \<open>k\<close> is null or absent: both sides are compared after \<open>bson\<close>.
\<close>

definition bson :: "json option \<Rightarrow> json" where
  "bson v = (case v of None \<Rightarrow> JNull | Some x \<Rightarrow> x)"

definition field_is :: "string \<Rightarrow> json option \<Rightarrow> doc \<Rightarrow> bool" where
  "field_is k v d = (bson (map_of d k) = bson v)"

definition by_id :: "string \<Rightarrow> doc \<Rightarrow> bool" where
  "by_id oid d = (map_of d ''_id'' = Some (JOid oid))"

definition findOne :: "(doc \<Rightarrow> bool) \<Rightarrow> doc list \<Rightarrow> doc option" where
  "findOne P ds = List.find P ds"

text \<open>
  \<open>$set\<close> writes the named fields in place and appends the new ones. The database
  refuses an update that would change \<open>_id\<close> of the matched document.
\<close>

definition set_fields :: "doc \<Rightarrow> doc \<Rightarrow> doc" where
  "set_fields s d = fold (\<lambda>(k, v). AList.update k v) s d"

definition apply_set :: "doc \<Rightarrow> doc \<Rightarrow> exn + doc" where
  "apply_set s d =
     (let d' = set_fields s d
      in if map_of d' ''_id'' = map_of d ''_id'' then Inr d' else Inl MongoServerError)"

record update_result =
  matchedCount :: nat
  modifiedCount :: nat

text \<open>
  \<open>updateOne\<close> changes the first matching document, \<open>updateMany\<close> all of them;
  \<open>modifiedCount\<close> counts the documents the update really changed. Each operation
  returns its result, or the exception it throws, and the collection it leaves.
\<close>

fun updateOne :: "(doc \<Rightarrow> bool) \<Rightarrow> doc \<Rightarrow> doc list \<Rightarrow> (exn + update_result) \<times> doc list" where
  "updateOne P s [] = (Inr \<lparr>matchedCount = 0, modifiedCount = 0\<rparr>, [])"
| "updateOne P s (d # ds) =
     (if P d then
        (case apply_set s d of
           Inl e \<Rightarrow> (Inl e, d # ds)
         | Inr d' \<Rightarrow>
             (Inr \<lparr>matchedCount = 1, modifiedCount = (if d' = d then 0 else 1)\<rparr>, d' # ds))
      else (case updateOne P s ds of (r, ds') \<Rightarrow> (r, d # ds')))"

fun updateMany :: "(doc \<Rightarrow> bool) \<Rightarrow> doc \<Rightarrow> doc list \<Rightarrow> (exn + update_result) \<times> doc list" where
  "updateMany P s [] = (Inr \<lparr>matchedCount = 0, modifiedCount = 0\<rparr>, [])"
| "updateMany P s (d # ds) =
     (if P d then
        (case apply_set s d of
           Inl e \<Rightarrow> (Inl e, d # ds)
         | Inr d' \<Rightarrow>
             (case updateMany P s ds of
                (Inl e, ds') \<Rightarrow> (Inl e, d' # ds')
              | (Inr r, ds') \<Rightarrow>
                  (Inr \<lparr>matchedCount = matchedCount r + 1,
                        modifiedCount = modifiedCount r + (if d' = d then 0 else 1)\<rparr>,
                   d' # ds')))
      else (case updateMany P s ds of (r, ds') \<Rightarrow> (r, d # ds')))"

fun deleteOne :: "(doc \<Rightarrow> bool) \<Rightarrow> doc list \<Rightarrow> nat \<times> doc list" where
  "deleteOne P [] = (0, [])"
| "deleteOne P (d # ds) =
     (if P d then (1, ds) else (case deleteOne P ds of (n, ds') \<Rightarrow> (n, d # ds')))"

text \<open>
  \<open>insertOne\<close> keeps an \<open>_id\<close> the client sent, unless it is null, and otherwise
  gives the document the object id the driver generates (the parameter \<open>fresh\<close>). The
  database stores \<open>_id\<close> as the first field; a second document with the same
  \<open>_id\<close> is a duplicate-key error.
\<close>

definition insertOne :: "string \<Rightarrow> doc \<Rightarrow> doc list \<Rightarrow> (exn + json) \<times> doc list" where
  "insertOne fresh d ds =
     (let insertedId = (case map_of d ''_id'' of
                          None \<Rightarrow> JOid fresh
                        | Some JNull \<Rightarrow> JOid fresh
                        | Some v \<Rightarrow> v);
          d' = (''_id'', insertedId) # AList.delete ''_id'' d
      in if Some insertedId \<in> set (map (\<lambda>x. map_of x ''_id'') ds)
         then (Inl MongoServerError, ds)
         else (Inr insertedId, ds @ [d']))"

section \<open>Server state and responses\<close>

record state =
  properties :: "doc list"
  users :: "doc list"
  wishlists :: "doc list"
  reviews :: "doc list"
  offers :: "doc list"
  firebase :: "string list"

section \<open>Session tokens\<close>

text \<open>
  The claims a token carries: the identity and role the client sent, the time of issue and
  the expiry time, both in seconds.
\<close>

record claims =
  email :: json
  role :: "json option"
  iat :: nat
  exp' :: nat

text \<open>
  The jsonwebtoken library, symbolically: a string is the compact form of some claims
  signed with some key, or it is any other string. \<open>sign\<close> with
  \<open>expiresIn: "30d"\<close> stamps the claims with the current time and an expiry
  2592000 seconds later and refuses an empty key; \<open>verify\<close> fails on a string
  that is no token, on a token signed with another key, and on a token whose expiry time
  the clock has reached.
\<close>

datatype jws = Signed claims string | Other string

definition jwt_sign :: "json \<Rightarrow> json option \<Rightarrow> string \<Rightarrow> nat \<Rightarrow> exn + jws" where
  "jwt_sign e r secret now =
     (if secret = [] then Inl JsonWebTokenError
      else Inr (Signed \<lparr>email = e, role = r, iat = now, exp' = now + 30 * 24 * 60 * 60\<rparr> secret))"

definition jwt_verify :: "jws option \<Rightarrow> string \<Rightarrow> nat \<Rightarrow> exn + claims" where
  "jwt_verify token secret now =
     (case token of
        None \<Rightarrow> Inl JsonWebTokenError
      | Some (Other _) \<Rightarrow> Inl JsonWebTokenError
      | Some (Signed c key) \<Rightarrow>
          if secret = [] \<or> key \<noteq> secret then Inl JsonWebTokenError
          else if exp' c \<le> now then Inl TokenExpiredError
          else Inr c)"

datatype body =
    Message string
  | MessageError string exn
  | ErrorOnly exn
  | Success bool string
  | Inserted json
  | Updated update_result
  | MessageResult string update_result
  | Token jws
  | ClientSecret string

record response =
  status :: nat
  body :: body

text \<open>A handler either sends a response or lets an exception escape.\<close>

datatype outcome = Sent response | Thrown exn

definition send :: "nat \<Rightarrow> body \<Rightarrow> outcome" where
  "send c b = Sent \<lparr>status = c, body = b\<rparr>"

text \<open>JavaScript truthiness of a value read from a JSON object.\<close>

fun truthy :: "json option \<Rightarrow> bool" where
  "truthy None = False"
| "truthy (Some JNull) = False"
| "truthy (Some (JBool b)) = b"
| "truthy (Some (JNum n)) = (fl n \<noteq> Finite 0)"
| "truthy (Some (JStr s)) = (s \<noteq> [])"
| "truthy (Some (JOid _)) = True"

section \<open>Tokens and guards\<close>

text \<open>
  \<open>POST /jwt\<close>. The request body is \<open>None\<close> when the request carried none;
  \<open>secret\<close> is the signing key of the environment and \<open>now\<close> the clock.
\<close>

definition post_jwt :: "string \<Rightarrow> nat \<Rightarrow> doc option \<Rightarrow> outcome" where
  "post_jwt secret now user =
     (case user of
        None \<Rightarrow> send 400 (Message ''Invalid user'')
      | Some u \<Rightarrow>
          if \<not> truthy (map_of u ''email'') then send 400 (Message ''Invalid user'')
          else (case jwt_sign (bson (map_of u ''email'')) (map_of u ''role'') secret now of
                  Inl e \<Rightarrow> Thrown e
                | Inr token \<Rightarrow> send 200 (Token token)))"

text \<open>
  \<open>verifyToken\<close>. The authorization header is given as its pieces between spaces
  (\<open>split(" ")\<close>), \<open>None\<close> when the header is absent; the token is the second
  piece. The middleware sends a response or hands the decoded claims to the next handler.
\<close>

definition verifyToken :: "string \<Rightarrow> nat \<Rightarrow> jws list option \<Rightarrow> response + claims" where
  "verifyToken secret now authHeader =
     (case authHeader of
        None \<Rightarrow> Inl \<lparr>status = 401, body = Message ''Unauthorized''\<rparr>
      | Some pieces \<Rightarrow>
          if pieces = [Other []] then Inl \<lparr>status = 401, body = Message ''Unauthorized''\<rparr>
          else (case jwt_verify (case drop 1 pieces of [] \<Rightarrow> None | t # _ \<Rightarrow> Some t)
                       secret now of
                  Inl err \<Rightarrow> Inl \<lparr>status = 403, body = Message ''Forbidden''\<rparr>
                | Inr decoded \<Rightarrow> Inr decoded))"

text \<open>
  \<open>verifyAdmin\<close> and \<open>verifyAgent\<close>: \<open>None\<close> is the call of \<open>next()\<close>.
  \<open>user?.role\<close> is \<open>undefined\<close> when no user was found.
\<close>

definition verifyAdmin :: "claims \<Rightarrow> state \<Rightarrow> response option" where
  "verifyAdmin decoded s =
     (let user = findOne (field_is ''email'' (Some (email decoded))) (users s)
      in if (case user of None \<Rightarrow> None | Some u \<Rightarrow> map_of u ''role'') \<noteq> Some (JStr ''admin'')
         then Some \<lparr>status = 403, body = Message ''forbidden: admin only''\<rparr>
         else None)"

definition verifyAgent :: "claims \<Rightarrow> state \<Rightarrow> response option" where
  "verifyAgent decoded s =
     (let user = findOne (field_is ''email'' (Some (email decoded))) (users s)
      in if (case user of None \<Rightarrow> None | Some u \<Rightarrow> map_of u ''role'') \<noteq> Some (JStr ''agent'')
         then Some \<lparr>status = 403, body = Message ''forbidden: agent only''\<rparr>
         else None)"

section \<open>Users\<close>

text \<open>\<open>POST /users\<close>\<close>

definition post_users :: "string \<Rightarrow> doc option \<Rightarrow> state \<Rightarrow> outcome \<times> state" where
  "post_users fresh reqBody s =
     (case reqBody of
        None \<Rightarrow> (send 500 (Message ''Failed to save user''), s)
      | Some user \<Rightarrow>
          (case findOne (field_is ''email'' (map_of user ''email'')) (users s) of
             Some existingUser \<Rightarrow> (send 400 (Message ''User already exists''), s)
           | None \<Rightarrow>
               (case insertOne fresh user (users s) of
                  (Inl e, us) \<Rightarrow> (send 500 (Message ''Failed to save user''), s\<lparr>users := us\<rparr>)
                | (Inr result, us) \<Rightarrow> (send 200 (Inserted result), s\<lparr>users := us\<rparr>))))"

text \<open>
  \<open>PATCH /users/admin/:id\<close>, \<open>PATCH /users/agent/:id\<close> and
  \<open>PATCH /users/fraud/:id\<close> differ in the field they set and in their message.
\<close>

definition users_patch :: "string \<Rightarrow> json \<Rightarrow> string \<Rightarrow> string \<Rightarrow> state \<Rightarrow> outcome \<times> state" where
  "users_patch k v msg idp s =
     (case ObjectId idp of
        Inl e \<Rightarrow> (send 500 (Message ''Server error''), s)
      | Inr oid \<Rightarrow>
          (case updateOne (by_id oid) [(k, v)] (users s) of
             (Inl e, us) \<Rightarrow> (send 500 (Message ''Server error''), s\<lparr>users := us\<rparr>)
           | (Inr result, us) \<Rightarrow>
               (if matchedCount result = 0 then send 404 (Message ''User not found'')
                else send 200 (Success True msg),
                s\<lparr>users := us\<rparr>)))"

definition users_admin :: "string \<Rightarrow> state \<Rightarrow> outcome \<times> state" where
  "users_admin = users_patch ''role'' (JStr ''admin'') ''User promoted to admin''"

definition users_agent :: "string \<Rightarrow> state \<Rightarrow> outcome \<times> state" where
  "users_agent = users_patch ''role'' (JStr ''agent'') ''User promoted to agent''"

definition users_fraud :: "string \<Rightarrow> state \<Rightarrow> outcome \<times> state" where
  "users_fraud = users_patch ''fraud'' (JBool True) ''User marked as fraud''"

text \<open>
  The identity provider's \<open>deleteUser\<close>: it throws unless the uid is a string naming
  an account it holds.
\<close>

definition firebase_deleteUser :: "json \<Rightarrow> string list \<Rightarrow> exn + string list" where
  "firebase_deleteUser uid fb =
     (case uid of
        JStr u \<Rightarrow> if u \<in> set fb then Inr (removeAll u fb) else Inl FirebaseAuthError
      | _ \<Rightarrow> Inl FirebaseAuthError)"

text \<open>\<open>DELETE /users/:id\<close>\<close>

definition delete_user :: "string \<Rightarrow> state \<Rightarrow> outcome \<times> state" where
  "delete_user idp s =
     (case ObjectId idp of
        Inl e \<Rightarrow> (send 500 (Message ''Server error''), s)
      | Inr oid \<Rightarrow>
          (case findOne (by_id oid) (users s) of
             None \<Rightarrow> (send 404 (Message ''User not found''), s)
           | Some user \<Rightarrow>
               (let fb = (if truthy (map_of user ''uid'')
                          then (case firebase_deleteUser (bson (map_of user ''uid'')) (firebase s) of
                                  Inl firebaseErr \<Rightarrow> firebase s
                                | Inr fb' \<Rightarrow> fb')
                          else firebase s);
                    result = deleteOne (by_id oid) (users s)
                in (send 200 (Success True ''User deleted''),
                    s\<lparr>users := snd result, firebase := fb\<rparr>))))"

section \<open>Properties\<close>

text \<open>\<open>PUT /properties/:id\<close>; a request without a body has nothing to set, which
  the database refuses.\<close>

definition put_property :: "string \<Rightarrow> doc option \<Rightarrow> state \<Rightarrow> outcome \<times> state" where
  "put_property idp propertyData s =
     (case ObjectId idp of
        Inl e \<Rightarrow> (send 500 (Message ''Internal server error''), s)
      | Inr oid \<Rightarrow>
          (case propertyData of
             None \<Rightarrow> (send 500 (Message ''Internal server error''), s)
           | Some setDoc \<Rightarrow>
               (case updateOne (by_id oid) setDoc (properties s) of
                  (Inl e, ps) \<Rightarrow> (send 500 (Message ''Internal server error''), s\<lparr>properties := ps\<rparr>)
                | (Inr result, ps) \<Rightarrow>
                    (if modifiedCount result = 0
                     then send 404 (Message ''Property not found or not modified'')
                     else send 200 (Message ''Property updated successfully''),
                     s\<lparr>properties := ps\<rparr>))))"

text \<open>\<open>DELETE /properties/:id\<close>\<close>

definition delete_property :: "string \<Rightarrow> state \<Rightarrow> outcome \<times> state" where
  "delete_property idp s =
     (case ObjectId idp of
        Inl e \<Rightarrow> (send 500 (Message ''Internal server error''), s)
      | Inr oid \<Rightarrow>
          (case deleteOne (by_id oid) (properties s) of
             (deletedCount, ps) \<Rightarrow>
               (if deletedCount = 0 then send 404 (Message ''Property not found'')
                else send 200 (Message ''Property deleted successfully''),
                s\<lparr>properties := ps\<rparr>)))"

text \<open>
  \<open>PATCH /properties/verify/:id\<close> and \<open>PATCH /properties/reject/:id\<close> send the
  update result itself.
\<close>

definition properties_status :: "string \<Rightarrow> string \<Rightarrow> string \<Rightarrow> state \<Rightarrow> outcome \<times> state" where
  "properties_status v msg idp s =
     (case ObjectId idp of
        Inl e \<Rightarrow> (send 500 (Message msg), s)
      | Inr oid \<Rightarrow>
          (case updateOne (by_id oid) [(''status'', JStr v)] (properties s) of
             (Inl e, ps) \<Rightarrow> (send 500 (Message msg), s\<lparr>properties := ps\<rparr>)
           | (Inr result, ps) \<Rightarrow> (send 200 (Updated result), s\<lparr>properties := ps\<rparr>)))"

definition properties_verify :: "string \<Rightarrow> state \<Rightarrow> outcome \<times> state" where
  "properties_verify = properties_status ''verified'' ''Failed to verify property''"

definition properties_reject :: "string \<Rightarrow> state \<Rightarrow> outcome \<times> state" where
  "properties_reject = properties_status ''rejected'' ''Failed to reject property''"

text \<open>\<open>PATCH /properties/advertise/:id\<close> has no exception handler.\<close>

definition properties_advertise :: "string \<Rightarrow> state \<Rightarrow> outcome \<times> state" where
  "properties_advertise idp s =
     (case ObjectId idp of
        Inl e \<Rightarrow> (Thrown e, s)
      | Inr oid \<Rightarrow>
          (case updateOne (by_id oid) [(''advertise'', JBool True)] (properties s) of
             (Inl e, ps) \<Rightarrow> (Thrown e, s\<lparr>properties := ps\<rparr>)
           | (Inr result, ps) \<Rightarrow> (send 200 (Updated result), s\<lparr>properties := ps\<rparr>)))"

section \<open>Wishlist and reviews\<close>

text \<open>\<open>DELETE /wishlist/:id\<close>\<close>

definition delete_wishlist :: "string \<Rightarrow> state \<Rightarrow> outcome \<times> state" where
  "delete_wishlist idp s =
     (case ObjectId idp of
        Inl e \<Rightarrow> (send 500 (Message ''Internal server error''), s)
      | Inr oid \<Rightarrow>
          (case deleteOne (by_id oid) (wishlists s) of
             (deletedCount, ws) \<Rightarrow>
               (if deletedCount > 0 then send 200 (Message ''Wishlist item deleted successfully'')
                else send 404 (Message ''Wishlist item not found''),
                s\<lparr>wishlists := ws\<rparr>)))"

text \<open>\<open>DELETE /reviews/:id\<close> has no exception handler.\<close>

definition delete_review :: "string \<Rightarrow> state \<Rightarrow> outcome \<times> state" where
  "delete_review idp s =
     (case ObjectId idp of
        Inl e \<Rightarrow> (Thrown e, s)
      | Inr oid \<Rightarrow>
          (case deleteOne (by_id oid) (reviews s) of
             (deletedCount, rs) \<Rightarrow>
               (if deletedCount > 0 then send 200 (Success True ''Review deleted'')
                else send 404 (Success False ''Review not found''),
                s\<lparr>reviews := rs\<rparr>)))"

section \<open>Offers\<close>

text \<open>\<open>PATCH /offers/accept/:id\<close>\<close>

definition offers_accept :: "string \<Rightarrow> state \<Rightarrow> outcome \<times> state" where
  "offers_accept idp s =
     (let failed = (\<lambda>e. send 500 (MessageError ''Failed to accept offer'' e))
      in case ObjectId idp of
           Inl e \<Rightarrow> (failed e, s)
         | Inr oid \<Rightarrow>
             (case findOne (by_id oid) (offers s) of
                None \<Rightarrow> (failed TypeError, s)
              | Some acceptedOffer \<Rightarrow>
                  (let propertyId = map_of acceptedOffer ''propertyId''
                   in case updateOne (by_id oid) [(''status'', JStr ''accepted'')] (offers s) of
                        (Inl e, os1) \<Rightarrow> (failed e, s\<lparr>offers := os1\<rparr>)
                      | (Inr result, os1) \<Rightarrow>
                          (case updateMany (\<lambda>d. field_is ''propertyId'' propertyId d \<and> \<not> by_id oid d)
                                  [(''status'', JStr ''rejected'')] os1 of
                             (Inl e, os2) \<Rightarrow> (failed e, s\<lparr>offers := os2\<rparr>)
                           | (Inr _, os2) \<Rightarrow>
                               (if modifiedCount result = 0
                                then send 404 (Message ''Offer not found or already updated'')
                                else send 200 (Message
                                  ''Offer accepted and other offers rejected successfully''),
                                s\<lparr>offers := os2\<rparr>)))))"

text \<open>\<open>PATCH /offers/reject/:id\<close>\<close>

definition offers_reject :: "string \<Rightarrow> state \<Rightarrow> outcome \<times> state" where
  "offers_reject idp s =
     (let failed = (\<lambda>e. send 500 (MessageError ''Failed to reject offer'' e))
      in case ObjectId idp of
           Inl e \<Rightarrow> (failed e, s)
         | Inr oid \<Rightarrow>
             (case updateOne (by_id oid) [(''status'', JStr ''rejected'')] (offers s) of
                (Inl e, os1) \<Rightarrow> (failed e, s\<lparr>offers := os1\<rparr>)
              | (Inr result, os1) \<Rightarrow>
                  (if modifiedCount result = 0
                   then send 404 (Message ''Offer not found or already updated'')
                   else send 200 (Message ''Offer rejected successfully''),
                   s\<lparr>offers := os1\<rparr>)))"

text \<open>
  \<open>PATCH /offers/:id\<close>. The transaction id is read from the body before the
  exception handler is entered; an absent one is written as null.
\<close>

definition offers_bought :: "string \<Rightarrow> doc option \<Rightarrow> state \<Rightarrow> outcome \<times> state" where
  "offers_bought idp reqBody s =
     (case reqBody of
        None \<Rightarrow> (Thrown TypeError, s)
      | Some b \<Rightarrow>
          (let transactionId = map_of b ''transactionId'';
               failed = (\<lambda>e. send 500 (MessageError ''Failed to update offer status'' e))
           in case ObjectId idp of
                Inl e \<Rightarrow> (failed e, s)
              | Inr oid \<Rightarrow>
                  (case updateOne (by_id oid)
                          [(''status'', JStr ''bought''), (''transactionId'', bson transactionId)]
                          (offers s) of
                     (Inl e, os1) \<Rightarrow> (failed e, s\<lparr>offers := os1\<rparr>)
                   | (Inr result, os1) \<Rightarrow>
                       (if modifiedCount result = 0
                        then send 404 (Message ''Offer not found or already updated'')
                        else send 200 (MessageResult ''Offer updated to bought successfully!'' result),
                        s\<lparr>offers := os1\<rparr>))))"

section \<open>Payment\<close>

text \<open>The product \<open>x * y\<close> of two numbers; \<open>Infinity True\<close> is the positive infinity.\<close>

fun js_times :: "number \<Rightarrow> number \<Rightarrow> number" where
  "js_times (Finite a) (Finite b) = fl (a * b)"
| "js_times (Finite a) (Infinity p) = (if a = 0 then NaN else Infinity (p = (0 < a)))"
| "js_times (Infinity p) (Finite b) = (if b = 0 then NaN else Infinity (p = (0 < b)))"
| "js_times (Infinity p) (Infinity r) = Infinity (p = r)"
| "js_times _ _ = NaN"

text \<open>
  The conversion a product applies to its operand. The reading of a string as a number is
  the runtime's and is taken as the parameter \<open>str2num\<close>.
\<close>

definition ToNumber :: "(string \<Rightarrow> number) \<Rightarrow> json option \<Rightarrow> number" where
  "ToNumber str2num v =
     (case v of
        None \<Rightarrow> NaN
      | Some JNull \<Rightarrow> Finite 0
      | Some (JBool b) \<Rightarrow> Finite (if b then 1 else 0)
      | Some (JNum q) \<Rightarrow> fl q
      | Some (JStr s) \<Rightarrow> str2num s
      | Some (JOid s) \<Rightarrow> str2num s)"

text \<open>
  \<open>parseInt\<close> of a number reads the integer at the start of the number's decimal
  string. From the double nearest to \<open>1 / 10 ^ 6\<close> up to \<open>10 ^ 21\<close> the string is in
  positional notation and the integer read is the number cut off at the decimal point.
  Outside this range the string is in exponent notation and the integer read is its
  leading digit with the sign; which digit the runtime prints is taken as the parameter
  \<open>lead\<close>.
\<close>

definition min_decimal :: rat where
  "min_decimal = 4722366482869645 / 2 ^ 72"

definition trunc :: "rat \<Rightarrow> int" where
  "trunc q = (if q < 0 then - \<lfloor>- q\<rfloor> else \<lfloor>q\<rfloor>)"

definition parseInt :: "(rat \<Rightarrow> int) \<Rightarrow> number \<Rightarrow> number" where
  "parseInt lead x =
     (case x of
        NaN \<Rightarrow> NaN
      | Infinity _ \<Rightarrow> NaN
      | Finite q \<Rightarrow>
          if q = 0 then Finite 0
          else if min_decimal \<le> \<bar>q\<bar> \<and> \<bar>q\<bar> < 10 ^ 21 then Finite (of_int (trunc q))
          else Finite (of_int (lead q)))"

text \<open>
  \<open>POST /create-payment-intent\<close>. The payment processor is the parameter
  \<open>stripe\<close>: it returns the client secret of the intent it created, or throws.
\<close>

record payment_intent =
  amount :: number
  currency :: string
  payment_method_types :: "string list"

definition payment_intent_params :: "(string \<Rightarrow> number) \<Rightarrow> (rat \<Rightarrow> int) \<Rightarrow> doc \<Rightarrow> payment_intent" where
  "payment_intent_params str2num lead b =
     (let price = map_of b ''price'';
          amount = parseInt lead (js_times (ToNumber str2num price) (Finite 100))
      in \<lparr>amount = amount, currency = ''usd'', payment_method_types = [''card'']\<rparr>)"

definition create_payment_intent ::
  "(string \<Rightarrow> number) \<Rightarrow> (rat \<Rightarrow> int) \<Rightarrow> (payment_intent \<Rightarrow> exn + string) \<Rightarrow> doc option \<Rightarrow> outcome" where
  "create_payment_intent str2num lead stripe reqBody =
     (case reqBody of
        None \<Rightarrow> Thrown TypeError
      | Some b \<Rightarrow>
          (case stripe (payment_intent_params str2num lead b) of
             Inl error \<Rightarrow> send 500 (ErrorOnly error)
           | Inr client_secret \<Rightarrow> send 200 (ClientSecret client_secret)))"

section \<open>Notions used in the statements\<close>

text \<open>
  A request id names a document when it is a well-formed object id and the document's
  \<open>_id\<close> is that object id. The database keeps \<open>_id\<close> unique in a collection.
\<close>

definition id_matches :: "string \<Rightarrow> doc \<Rightarrow> bool" where
  "id_matches idp d = (case ObjectId idp of Inl _ \<Rightarrow> False | Inr oid \<Rightarrow> by_id oid d)"

definition unique_ids :: "doc list \<Rightarrow> bool" where
  "unique_ids ds = distinct (map (\<lambda>d. map_of d ''_id'') ds)"

text \<open>The role the users collection holds for an identity: that of the first user with
  this email, if there is one.\<close>

definition stored_role :: "json \<Rightarrow> state \<Rightarrow> json option" where
  "stored_role e s =
     (case List.find (\<lambda>u. bson (map_of u ''email'') = e) (users s) of
        None \<Rightarrow> None
      | Some u \<Rightarrow> map_of u ''role'')"

text \<open>A small store used to run the handlers on concrete requests.\<close>

definition example_offers :: "doc list" where
  "example_offers =
     [[(''_id'', JOid ''0000000000000000000000a1''), (''propertyId'', JStr ''p1''),
       (''status'', JStr ''pending'')],
      [(''_id'', JOid ''0000000000000000000000a2''), (''propertyId'', JStr ''p1''),
       (''status'', JStr ''pending'')],
      [(''_id'', JOid ''0000000000000000000000a3''), (''propertyId'', JStr ''p2''),
       (''status'', JStr ''bought''), (''transactionId'', JStr ''tx123'')],
      [(''_id'', JOid ''0000000000000000000000a4''), (''propertyId'', JStr ''p3''),
       (''status'', JStr ''accepted'')],
      [(''_id'', JOid ''0000000000000000000000a5''), (''propertyId'', JStr ''p3''),
       (''status'', JStr ''pending'')]]"

definition example_users :: "doc list" where
  "example_users =
     [[(''_id'', JOid ''0000000000000000000000b1''), (''email'', JStr ''ann@example.org''),
       (''role'', JStr ''admin''), (''uid'', JStr ''uid-ann'')],
      [(''_id'', JOid ''0000000000000000000000b2''), (''email'', JStr ''bob@example.org''),
       (''role'', JStr ''agent'')]]"

definition example_properties :: "doc list" where
  "example_properties =
     [[(''_id'', JOid ''0000000000000000000000d1''), (''title'', JStr ''Villa''),
       (''status'', JStr ''verified'')]]"

definition example_state :: "doc list \<Rightarrow> state" where
  "example_state os = \<lparr>properties = example_properties, users = example_users,
     wishlists = [], reviews = [], offers = os, firebase = [''uid-ann'']\<rparr>"

section \<open>Facts about the database operations\<close>

lemma apply_set_single:
  "k \<noteq> ''_id'' \<Longrightarrow> apply_set [(k, v)] d = Inr (AList.update k v d)"
  by (simp add: apply_set_def set_fields_def update_conv')

lemma by_id_update:
  "k \<noteq> ''_id'' \<Longrightarrow> by_id oid (AList.update k v d) = by_id oid d"
  by (simp add: by_id_def update_conv')

lemma updateMany_single:
  assumes "k \<noteq> ''_id''"
  shows "\<exists>r. updateMany P [(k, v)] ds =
           (Inr r, map (\<lambda>d. if P d then AList.update k v d else d) ds)"
proof (induction ds)
  case Nil
  show ?case by simp
next
  case (Cons d ds)
  then obtain r where "updateMany P [(k, v)] ds =
      (Inr r, map (\<lambda>d. if P d then AList.update k v d else d) ds)" by blast
  then show ?case using assms by (simp add: apply_set_single)
qed

lemma updateOne_none:
  "\<forall>d \<in> set ds. \<not> P d \<Longrightarrow>
   updateOne P s ds = (Inr \<lparr>matchedCount = 0, modifiedCount = 0\<rparr>, ds)"
  by (induction ds) auto

lemma deleteOne_none:
  "\<forall>d \<in> set ds. \<not> P d \<Longrightarrow> deleteOne P ds = (0, ds)"
  by (induction ds) auto

lemma findOne_none: "\<forall>d \<in> set ds. \<not> P d \<Longrightarrow> findOne P ds = None"
  by (induction ds) (auto simp: findOne_def)

lemma by_id_unique:
  assumes "distinct (map (\<lambda>d. map_of d ''_id'') ds)" "d \<in> set ds" "d' \<in> set ds"
    "by_id oid d" "by_id oid d'"
  shows "d = d'"
proof -
  have "inj_on (\<lambda>d. map_of d ''_id'') (set ds)"
    using assms(1) by (simp add: distinct_map)
  moreover have "map_of d ''_id'' = map_of d' ''_id''"
    using assms(4,5) by (simp add: by_id_def)
  ultimately show ?thesis using assms(2,3) by (rule inj_onD)
qed

lemma updateOne_by_id:
  assumes "k \<noteq> ''_id''" "distinct (map (\<lambda>d. map_of d ''_id'') ds)" "x \<in> set ds" "by_id oid x"
  shows "updateOne (by_id oid) [(k, v)] ds =
           (Inr \<lparr>matchedCount = 1, modifiedCount = (if AList.update k v x = x then 0 else 1)\<rparr>,
            map (\<lambda>d. if by_id oid d then AList.update k v d else d) ds)"
  using assms
proof (induction ds)
  case Nil
  then show ?case by simp
next
  case (Cons d ds)
  show ?case
  proof (cases "by_id oid d")
    case True
    have "x = d" using Cons.prems True by (auto intro: by_id_unique[of "d # ds"])
    moreover have "\<forall>y \<in> set ds. \<not> by_id oid y"
      using Cons.prems True by (auto simp: by_id_def image_iff)
    ultimately show ?thesis using True Cons.prems(1)
      by (simp add: apply_set_single map_idI cong: map_cong)
  next
    case False
    then have "x \<in> set ds" using Cons.prems by auto
    then show ?thesis using False Cons by simp
  qed
qed

lemma findOne_by_id:
  assumes "distinct (map (\<lambda>d. map_of d ''_id'') ds)" "x \<in> set ds" "by_id oid x"
  shows "findOne (by_id oid) ds = Some x"
  using assms
  by (induction ds) (auto simp: findOne_def by_id_def image_iff)

lemma updateOne_by_id_general:
  assumes "distinct (map (\<lambda>d. map_of d ''_id'') ds)" "x \<in> set ds" "by_id oid x"
  shows "updateOne (by_id oid) sd ds =
           (case apply_set sd x of
              Inl e \<Rightarrow> (Inl e, ds)
            | Inr x' \<Rightarrow>
                (Inr \<lparr>matchedCount = 1, modifiedCount = (if x' = x then 0 else 1)\<rparr>,
                 map (\<lambda>d. if d = x then x' else d) ds))"
  using assms
proof (induction ds)
  case Nil
  then show ?case by simp
next
  case (Cons d ds)
  show ?case
  proof (cases "by_id oid d")
    case True
    have xd: "x = d" using Cons.prems True by (auto intro: by_id_unique[of "d # ds"])
    have "d \<notin> set ds"
      using Cons.prems(1) by (auto simp: image_iff)
    then have "map (\<lambda>y. if y = d then z else y) ds = ds" for z
      by (intro map_idI) auto
    then show ?thesis using True xd
      by (simp split: sum.splits)
  next
    case False
    then have "x \<in> set ds" "x \<noteq> d" using Cons.prems by auto
    then show ?thesis using False Cons
      by (simp split: sum.splits)
  qed
qed

lemma updateOne_single_ok:
  assumes "k \<noteq> ''_id''"
  shows "\<exists>r ds'. updateOne P [(k, v)] ds = (Inr r, ds')"
proof (induction ds)
  case Nil
  show ?case by simp
next
  case (Cons d ds)
  then obtain r ds' where "updateOne P [(k, v)] ds = (Inr r, ds')" by blast
  then show ?case using assms by (simp add: apply_set_single)
qed

lemma updateOne_noop:
  assumes "distinct (map (\<lambda>d. map_of d ''_id'') ds)" "x \<in> set ds" "by_id oid x"
    and "set_fields sd x = x"
  shows "updateOne (by_id oid) sd ds = (Inr \<lparr>matchedCount = 1, modifiedCount = 0\<rparr>, ds)"
proof -
  have "apply_set sd x = Inr x"
    using assms(4) by (simp add: apply_set_def)
  moreover have "map (\<lambda>d. if d = x then x else d) ds = ds"
    by (intro map_idI) simp
  ultimately show ?thesis
    using updateOne_by_id_general [OF assms(1-3), of sd] by simp
qed

section \<open>Facts about rounding to a double\<close>

lemma round_even_of_int: "round_even (of_int k) = k"
  by (simp add: round_even_def)

lemma bitlen_one: "bitlen 1 = 1"
  by (simp add: bitlen_alt_def)

lemma ilog2_of_int:
  assumes "0 < m"
  shows "ilog2 (of_int m) = bitlen m - 1"
proof -
  have q: "quotient_of (of_int m) = (m, 1)"
    using quotient_of_int [of m] by (simp add: Rat.of_int_def)
  have b: "1 \<le> bitlen m"
    using assms bitlen_eq_zero_iff [of m] bitlen_nonneg [of m] by linarith
  have "(2::int) ^ nat (bitlen m - 1) \<le> m"
    using bitlen_bounds [OF assms] by simp
  then have "(of_int ((2::int) ^ nat (bitlen m - 1)) :: rat) \<le> of_int m"
    by (simp only: of_int_le_iff)
  then have "(2::rat) powi (bitlen m - 1) \<le> of_int m"
    using b by (simp add: power_int_def)
  then show ?thesis
    by (simp add: ilog2_def q bitlen_one)
qed

lemma fl_of_int_pos:
  assumes "0 < m" "m \<le> 2 ^ 53"
  shows "fl (of_int m) = Finite (of_int m)" and "fl (of_int (- m)) = Finite (of_int (- m))"
proof -
  let ?e = "bitlen m - 1"
  have b: "1 \<le> bitlen m"
    using assms bitlen_eq_zero_iff [of m] bitlen_nonneg [of m] by linarith
  have lo: "(2::int) ^ nat ?e \<le> m"
    using bitlen_bounds [OF assms(1)] by simp
  have "?e \<le> 53"
  proof (rule ccontr)
    assume "\<not> ?e \<le> 53"
    then have "54 \<le> nat ?e" by simp
    then have "(2::int) ^ 54 \<le> 2 ^ nat ?e"
      by (intro power_increasing) simp_all
    then show False using lo assms(2) by simp
  qed
  have il: "ilog2 \<bar>of_int m\<bar> = ?e" "ilog2 \<bar>of_int (- m)\<bar> = ?e"
    using assms(1) ilog2_of_int [OF assms(1)] by simp_all
  have mx: "max ?e (- 1022) = ?e" using b by simp
  obtain k :: int where k: "(of_int m :: rat) / 2 powi (?e - 52) = of_int k"
  proof (cases "?e \<le> 52")
    case True
    then have "(2::rat) powi (?e - 52) = 1 / 2 ^ nat (52 - ?e)"
      using power_int_minus_divide [of "2::rat" "52 - ?e"] by (simp add: power_int_def)
    then have "(of_int m :: rat) / 2 powi (?e - 52) = of_int (m * 2 ^ nat (52 - ?e))"
      by simp
    then show ?thesis using that by blast
  next
    case False
    then have e: "?e = 53" using \<open>?e \<le> 53\<close> by simp
    then have "(2::int) ^ 53 \<le> m" using lo by simp
    then have "m = 2 ^ 53" using assms(2) by simp
    then have "(of_int m :: rat) / 2 powi (?e - 52) = of_int (2 ^ 52)"
      using e by simp
    then show ?thesis using that by blast
  qed
  have nz: "(2::rat) powi (?e - 52) \<noteq> 0" by simp
  have prod: "(of_int k :: rat) * 2 powi (?e - 52) = of_int m"
    using k nz by (simp add: field_simps)
  have small: "\<bar>of_int m :: rat\<bar> < 2 ^ 1024"
  proof -
    have "m < (2::int) ^ 1024" using assms(2) by simp
    then have "(of_int m :: rat) < of_int ((2::int) ^ 1024)" by (simp only: of_int_less_iff)
    then show ?thesis using assms(1) by simp
  qed
  have nz': "(of_int m :: rat) \<noteq> 0" using assms(1) by simp
  have k': "(of_int (- m) :: rat) / 2 powi (?e - 52) = of_int (- k)"
    using k by simp
  show "fl (of_int m) = Finite (of_int m)"
    unfolding fl_def Let_def il mx k round_even_of_int prod
    using small nz' by simp
  show "fl (of_int (- m)) = Finite (of_int (- m))"
    unfolding fl_def Let_def il mx k' round_even_of_int
    using small nz' prod by simp
qed

lemma fl_of_int:
  assumes "\<bar>n\<bar> \<le> 2 ^ 53"
  shows "fl (of_int n) = Finite (of_int n)"
proof -
  consider "n = 0" | "0 < n" | "n < 0" by linarith
  then show ?thesis
  proof cases
    case 1
    then show ?thesis by (simp add: fl_def)
  next
    case 2
    then show ?thesis using fl_of_int_pos(1) [of n] assms by simp
  next
    case 3
    then show ?thesis using fl_of_int_pos(2) [of "- n"] assms by simp
  qed
qed

lemma trunc_of_int: "trunc (of_int k) = k"
proof -
  have "\<lfloor>- (of_int k :: rat)\<rfloor> = - k"
    by (simp flip: of_int_minus)
  then show ?thesis by (simp add: trunc_def)
qed

section \<open>The offer lifecycle\<close>

text \<open>
  C1. Accepting an offer that is in the store, under its own id: the offer's status becomes
  \<open>accepted\<close>, every other offer with the same property reference becomes
  \<open>rejected\<close>, and the offers of other properties, like the other collections, stay
  as they were; the resulting store is what the update of the siblings leaves when it runs
  on what the update of the target left. Property references are compared as the database
  compares them (an absent reference and null are the same reference).
\<close>

theorem accept_cascade:
  assumes "unique_ids (offers s)" and "x \<in> set (offers s)"
    and "ObjectId idp = Inr oid" and "by_id oid x"
  shows "snd (offers_accept idp s) = s\<lparr>offers :=
           map (\<lambda>d. if by_id oid d then AList.update ''status'' (JStr ''accepted'') d
                    else if bson (map_of d ''propertyId'') = bson (map_of x ''propertyId'')
                    then AList.update ''status'' (JStr ''rejected'') d
                    else d) (offers s)\<rparr> \<and>
         offers (snd (offers_accept idp s)) =
           snd (updateMany (\<lambda>d. field_is ''propertyId'' (map_of x ''propertyId'') d \<and> \<not> by_id oid d)
                  [(''status'', JStr ''rejected'')]
                  (snd (updateOne (by_id oid) [(''status'', JStr ''accepted'')] (offers s))))"
proof -
  let ?acc = "\<lambda>d. if by_id oid d then AList.update ''status'' (JStr ''accepted'') d else d"
  let ?sib = "\<lambda>d. field_is ''propertyId'' (map_of x ''propertyId'') d \<and> \<not> by_id oid d"
  have u: "distinct (map (\<lambda>d. map_of d ''_id'') (offers s))"
    using assms(1) by (simp add: unique_ids_def)
  have f: "findOne (by_id oid) (offers s) = Some x"
    using u assms(2,4) by (rule findOne_by_id)
  have one: "updateOne (by_id oid) [(''status'', JStr ''accepted'')] (offers s) =
      (Inr \<lparr>matchedCount = 1,
            modifiedCount = (if AList.update ''status'' (JStr ''accepted'') x = x then 0 else 1)\<rparr>,
       map ?acc (offers s))"
    using u assms(2,4) by (intro updateOne_by_id) simp_all
  obtain r where many: "updateMany ?sib [(''status'', JStr ''rejected'')] (map ?acc (offers s)) =
      (Inr r, map (\<lambda>d. if ?sib d then AList.update ''status'' (JStr ''rejected'') d else d)
                (map ?acc (offers s)))"
    using updateMany_single[of "''status''" ?sib "JStr ''rejected''" "map ?acc (offers s)"]
    by auto
  have comp: "map (\<lambda>d. if ?sib d then AList.update ''status'' (JStr ''rejected'') d else d)
                (map ?acc (offers s)) =
      map (\<lambda>d. if by_id oid d then AList.update ''status'' (JStr ''accepted'') d
               else if bson (map_of d ''propertyId'') = bson (map_of x ''propertyId'')
               then AList.update ''status'' (JStr ''rejected'') d
               else d) (offers s)"
    by (simp add: field_is_def by_id_update)
  have st: "snd (offers_accept idp s) = s\<lparr>offers :=
           map (\<lambda>d. if by_id oid d then AList.update ''status'' (JStr ''accepted'') d
                    else if bson (map_of d ''propertyId'') = bson (map_of x ''propertyId'')
                    then AList.update ''status'' (JStr ''rejected'') d
                    else d) (offers s)\<rparr>"
    unfolding offers_accept_def Let_def
    by (simp only: assms(3) sum.case f option.case one many comp prod.case snd_conv
          split: if_splits)
  have sq: "snd (updateMany ?sib [(''status'', JStr ''rejected'')]
                  (snd (updateOne (by_id oid) [(''status'', JStr ''accepted'')] (offers s)))) =
      map (\<lambda>d. if by_id oid d then AList.update ''status'' (JStr ''accepted'') d
               else if bson (map_of d ''propertyId'') = bson (map_of x ''propertyId'')
               then AList.update ''status'' (JStr ''rejected'') d
               else d) (offers s)"
    by (simp only: one many comp snd_conv)
  show ?thesis
    by (simp only: st sq) simp
qed

theorem accept_cascade_witness:
  "unique_ids example_offers \<and>
   snd (offers_accept ''0000000000000000000000A1'' (example_state example_offers)) =
     example_state
       [[(''_id'', JOid ''0000000000000000000000a1''), (''propertyId'', JStr ''p1''),
         (''status'', JStr ''accepted'')],
        [(''_id'', JOid ''0000000000000000000000a2''), (''propertyId'', JStr ''p1''),
         (''status'', JStr ''rejected'')],
        [(''_id'', JOid ''0000000000000000000000a3''), (''propertyId'', JStr ''p2''),
         (''status'', JStr ''bought''), (''transactionId'', JStr ''tx123'')],
        [(''_id'', JOid ''0000000000000000000000a4''), (''propertyId'', JStr ''p3''),
         (''status'', JStr ''accepted'')],
        [(''_id'', JOid ''0000000000000000000000a5''), (''propertyId'', JStr ''p3''),
         (''status'', JStr ''pending'')]]"
proof -
  have u: "unique_ids (offers (example_state example_offers))"
    by (simp add: unique_ids_def example_state_def example_offers_def)
  have m: "example_offers ! 0 \<in> set (offers (example_state example_offers))"
    by (simp add: example_state_def example_offers_def)
  have p: "ObjectId ''0000000000000000000000A1'' = Inr ''0000000000000000000000a1''"
    by (simp add: ObjectId_def hex_digit_def lower_hex_def)
  have b: "by_id ''0000000000000000000000a1'' (example_offers ! 0)"
    by (simp add: by_id_def example_offers_def)
  show ?thesis
    using u accept_cascade [OF u m p b]
    by (simp add: example_state_def example_offers_def by_id_def bson_def)
qed

text \<open>
  C2. Accepting an offer whose status is already \<open>accepted\<close>: the update of the target
  changes nothing, so the handler answers 404, but the update of the siblings has run: every
  other offer with the same property reference is now \<open>rejected\<close>.
\<close>

theorem accept_already_accepted:
  assumes "unique_ids (offers s)" and "x \<in> set (offers s)"
    and "ObjectId idp = Inr oid" and "by_id oid x"
    and "map_of x ''status'' = Some (JStr ''accepted'')"
  shows "fst (updateOne (by_id oid) [(''status'', JStr ''accepted'')] (offers s)) =
           Inr \<lparr>matchedCount = 1, modifiedCount = 0\<rparr> \<and>
         fst (offers_accept idp s) = send 404 (Message ''Offer not found or already updated'') \<and>
         snd (offers_accept idp s) = s\<lparr>offers :=
           map (\<lambda>d. if \<not> by_id oid d \<and>
                         bson (map_of d ''propertyId'') = bson (map_of x ''propertyId'')
                    then AList.update ''status'' (JStr ''rejected'') d
                    else d) (offers s)\<rparr>"
proof -
  let ?acc = "\<lambda>d. if by_id oid d then AList.update ''status'' (JStr ''accepted'') d else d"
  let ?sib = "\<lambda>d. field_is ''propertyId'' (map_of x ''propertyId'') d \<and> \<not> by_id oid d"
  have u: "distinct (map (\<lambda>d. map_of d ''_id'') (offers s))"
    using assms(1) by (simp add: unique_ids_def)
  have f: "findOne (by_id oid) (offers s) = Some x"
    using u assms(2,4) by (rule findOne_by_id)
  have same: "AList.update ''status'' (JStr ''accepted'') x = x"
    using assms(5) by (rule update_triv)
  have same_all: "map ?acc (offers s) = offers s"
  proof (rule map_idI)
    fix d assume "d \<in> set (offers s)"
    then show "?acc d = d"
      using by_id_unique[OF u _ assms(2) _ assms(4), of d] same by auto
  qed
  have one: "updateOne (by_id oid) [(''status'', JStr ''accepted'')] (offers s) =
      (Inr \<lparr>matchedCount = 1, modifiedCount = 0\<rparr>, offers s)"
    using updateOne_by_id[OF _ u assms(2,4), of "''status''" "JStr ''accepted''"] same same_all
    by simp
  obtain r where many: "updateMany ?sib [(''status'', JStr ''rejected'')] (offers s) =
      (Inr r, map (\<lambda>d. if ?sib d then AList.update ''status'' (JStr ''rejected'') d else d)
                (offers s))"
    using updateMany_single[of "''status''" ?sib "JStr ''rejected''" "offers s"]
    by auto
  have comp: "map (\<lambda>d. if ?sib d then AList.update ''status'' (JStr ''rejected'') d else d)
                (offers s) =
      map (\<lambda>d. if \<not> by_id oid d \<and>
                    bson (map_of d ''propertyId'') = bson (map_of x ''propertyId'')
               then AList.update ''status'' (JStr ''rejected'') d
               else d) (offers s)"
    by (simp add: field_is_def conj_commute)
  show ?thesis
    unfolding offers_accept_def Let_def
    by (simp add: assms(3) f one many comp)
qed

theorem accept_already_accepted_witness:
  "unique_ids example_offers \<and>
   map_of (example_offers ! 3) ''status'' = Some (JStr ''accepted'') \<and>
   fst (offers_accept ''0000000000000000000000a4'' (example_state example_offers)) =
     send 404 (Message ''Offer not found or already updated'') \<and>
   snd (offers_accept ''0000000000000000000000a4'' (example_state example_offers)) =
     example_state
       [[(''_id'', JOid ''0000000000000000000000a1''), (''propertyId'', JStr ''p1''),
         (''status'', JStr ''pending'')],
        [(''_id'', JOid ''0000000000000000000000a2''), (''propertyId'', JStr ''p1''),
         (''status'', JStr ''pending'')],
        [(''_id'', JOid ''0000000000000000000000a3''), (''propertyId'', JStr ''p2''),
         (''status'', JStr ''bought''), (''transactionId'', JStr ''tx123'')],
        [(''_id'', JOid ''0000000000000000000000a4''), (''propertyId'', JStr ''p3''),
         (''status'', JStr ''accepted'')],
        [(''_id'', JOid ''0000000000000000000000a5''), (''propertyId'', JStr ''p3''),
         (''status'', JStr ''rejected'')]] \<and>
   snd (offers_accept ''0000000000000000000000a4'' (example_state example_offers)) \<noteq>
     example_state example_offers"
proof -
  have u: "unique_ids (offers (example_state example_offers))"
    by (simp add: unique_ids_def example_state_def example_offers_def)
  have m: "example_offers ! 3 \<in> set (offers (example_state example_offers))"
    by (simp add: example_state_def example_offers_def)
  have p: "ObjectId ''0000000000000000000000a4'' = Inr ''0000000000000000000000a4''"
    by (simp add: ObjectId_def hex_digit_def lower_hex_def)
  have b: "by_id ''0000000000000000000000a4'' (example_offers ! 3)"
    by (simp add: by_id_def example_offers_def)
  have a: "map_of (example_offers ! 3) ''status'' = Some (JStr ''accepted'')"
    by (simp add: example_offers_def)
  show ?thesis
    using u a accept_already_accepted [OF u m p b a]
    by (simp add: example_state_def example_offers_def by_id_def bson_def)
qed

text \<open>
  C10. Accepting under an id that names no stored offer: the handler answers 500, not 404,
  and the store is left as it was. A malformed id fails in the object-id constructor, a
  well-formed one in the read of the property reference of the offer that was not found.
\<close>

theorem accept_unknown_id:
  assumes "\<forall>d \<in> set (offers s). \<not> id_matches idp d"
  shows "offers_accept idp s =
           (send 500 (MessageError ''Failed to accept offer''
              (case ObjectId idp of Inl e \<Rightarrow> e | Inr _ \<Rightarrow> TypeError)), s)"
proof (cases "ObjectId idp")
  case (Inl e)
  then show ?thesis by (simp add: offers_accept_def)
next
  case (Inr oid)
  then have "\<forall>d \<in> set (offers s). \<not> by_id oid d"
    using assms by (simp add: id_matches_def)
  then have "findOne (by_id oid) (offers s) = None" by (rule findOne_none)
  then show ?thesis using Inr by (simp add: offers_accept_def)
qed

theorem accept_unknown_id_witness:
  "list_all (\<lambda>d. \<not> id_matches ''0000000000000000000000ff'' d) example_offers \<and>
   offers_accept ''0000000000000000000000ff'' (example_state example_offers) =
     (send 500 (MessageError ''Failed to accept offer'' TypeError),
      example_state example_offers)"
proof -
  have p: "ObjectId ''0000000000000000000000ff'' = Inr ''0000000000000000000000ff''"
    by (simp add: ObjectId_def hex_digit_def lower_hex_def)
  have n: "\<forall>d \<in> set (offers (example_state example_offers)).
             \<not> id_matches ''0000000000000000000000ff'' d"
    by (simp add: id_matches_def p by_id_def example_state_def example_offers_def)
  show ?thesis
    using n accept_unknown_id [OF n]
    by (simp add: p example_state_def list_all_iff)
qed

text \<open>
  C6. Rejecting an offer that is in the store, under its own id, whatever its status: the
  handler does not read the offer first, and afterwards the offer's status is
  \<open>rejected\<close>; nothing else in the store changes.
\<close>

theorem reject_any_status:
  assumes "unique_ids (offers s)" and "x \<in> set (offers s)"
    and "ObjectId idp = Inr oid" and "by_id oid x"
  shows "snd (offers_reject idp s) = s\<lparr>offers :=
           map (\<lambda>d. if by_id oid d then AList.update ''status'' (JStr ''rejected'') d else d)
             (offers s)\<rparr> \<and>
         (\<exists>d \<in> set (offers (snd (offers_reject idp s))). by_id oid d) \<and>
         (\<forall>d \<in> set (offers (snd (offers_reject idp s))).
            by_id oid d \<longrightarrow> map_of d ''status'' = Some (JStr ''rejected''))"
proof -
  let ?rej = "\<lambda>d. if by_id oid d then AList.update ''status'' (JStr ''rejected'') d else d"
  have u: "distinct (map (\<lambda>d. map_of d ''_id'') (offers s))"
    using assms(1) by (simp add: unique_ids_def)
  have one: "updateOne (by_id oid) [(''status'', JStr ''rejected'')] (offers s) =
      (Inr \<lparr>matchedCount = 1,
            modifiedCount = (if AList.update ''status'' (JStr ''rejected'') x = x then 0 else 1)\<rparr>,
       map ?rej (offers s))"
    using u assms(2,4) by (intro updateOne_by_id) simp_all
  have st: "snd (offers_reject idp s) = s\<lparr>offers := map ?rej (offers s)\<rparr>"
    unfolding offers_reject_def Let_def
    by (simp add: assms(3) one)
  have "?rej x \<in> set (map ?rej (offers s))"
    using assms(2) by (rule imageI[of x "set (offers s)" ?rej, folded set_map])
  moreover have "by_id oid (?rej x)"
    using assms(4) by (simp add: by_id_update)
  ultimately have ex: "\<exists>d \<in> set (map ?rej (offers s)). by_id oid d" by blast
  have all: "\<forall>d \<in> set (map ?rej (offers s)).
               by_id oid d \<longrightarrow> map_of d ''status'' = Some (JStr ''rejected'')"
    by (auto simp: update_conv' by_id_update)
  show ?thesis using st ex all by simp
qed

theorem reject_any_status_witness:
  "unique_ids example_offers \<and>
   map_of (example_offers ! 2) ''status'' = Some (JStr ''bought'') \<and>
   snd (offers_reject ''0000000000000000000000a3'' (example_state example_offers)) =
     example_state
       [[(''_id'', JOid ''0000000000000000000000a1''), (''propertyId'', JStr ''p1''),
         (''status'', JStr ''pending'')],
        [(''_id'', JOid ''0000000000000000000000a2''), (''propertyId'', JStr ''p1''),
         (''status'', JStr ''pending'')],
        [(''_id'', JOid ''0000000000000000000000a3''), (''propertyId'', JStr ''p2''),
         (''status'', JStr ''rejected''), (''transactionId'', JStr ''tx123'')],
        [(''_id'', JOid ''0000000000000000000000a4''), (''propertyId'', JStr ''p3''),
         (''status'', JStr ''accepted'')],
        [(''_id'', JOid ''0000000000000000000000a5''), (''propertyId'', JStr ''p3''),
         (''status'', JStr ''pending'')]]"
proof -
  have u: "unique_ids (offers (example_state example_offers))"
    by (simp add: unique_ids_def example_state_def example_offers_def)
  have m: "example_offers ! 2 \<in> set (offers (example_state example_offers))"
    by (simp add: example_state_def example_offers_def)
  have p: "ObjectId ''0000000000000000000000a3'' = Inr ''0000000000000000000000a3''"
    by (simp add: ObjectId_def hex_digit_def lower_hex_def)
  have b: "by_id ''0000000000000000000000a3'' (example_offers ! 2)"
    by (simp add: by_id_def example_offers_def)
  show ?thesis
    using u reject_any_status [OF u m p b]
    by (simp add: example_state_def example_offers_def by_id_def)
qed

section \<open>Users and guards\<close>

text \<open>
  C5. Creating a user whose email some stored user already has: the answer is 400 and the
  store is the one before the request, so no second record is inserted.
\<close>

theorem post_users_existing_email:
  assumes "\<exists>u \<in> set (users s). bson (map_of u ''email'') = bson (map_of user ''email'')"
  shows "post_users fresh (Some user) s = (send 400 (Message ''User already exists''), s)"
proof -
  have "List.find (field_is ''email'' (map_of user ''email'')) (users s) \<noteq> None"
    using assms by (auto simp: find_None_iff field_is_def)
  then obtain u where "findOne (field_is ''email'' (map_of user ''email'')) (users s) = Some u"
    by (auto simp: findOne_def)
  then show ?thesis by (simp add: post_users_def)
qed

theorem post_users_existing_email_witness:
  "list_ex (\<lambda>u. bson (map_of u ''email'') =
      bson (map_of [(''email'', JStr ''bob@example.org''), (''role'', JStr ''admin'')] ''email''))
     (users (example_state [])) \<and>
   post_users ''0000000000000000000000c1''
     (Some [(''email'', JStr ''bob@example.org''), (''role'', JStr ''admin'')]) (example_state []) =
     (send 400 (Message ''User already exists''), example_state [])"
proof -
  have h: "\<exists>u \<in> set (users (example_state [])).
      bson (map_of u ''email'') =
      bson (map_of [(''email'', JStr ''bob@example.org''), (''role'', JStr ''admin'')] ''email'')"
    by (simp add: example_state_def example_users_def bson_def)
  show ?thesis
    using h post_users_existing_email [OF h, of "''0000000000000000000000c1''"]
    by (simp add: list_ex_iff)
qed

text \<open>
  C8. Both guards decide from the role stored for the email of the claims: they pass exactly
  when that role is the required one and answer 403 otherwise, so two sets of claims with
  the same email get the same decision whatever role the tokens carry.
\<close>

theorem guards_use_stored_role:
  "verifyAdmin c s =
     (if stored_role (email c) s = Some (JStr ''admin'') then None
      else Some \<lparr>status = 403, body = Message ''forbidden: admin only''\<rparr>) \<and>
   verifyAgent c s =
     (if stored_role (email c) s = Some (JStr ''agent'') then None
      else Some \<lparr>status = 403, body = Message ''forbidden: agent only''\<rparr>) \<and>
   (email c = email c' \<longrightarrow>
      verifyAdmin c s = verifyAdmin c' s \<and> verifyAgent c s = verifyAgent c' s)"
proof -
  have "field_is ''email'' (Some e) = (\<lambda>u. bson (map_of u ''email'') = e)" for e
    by (auto simp: field_is_def bson_def fun_eq_iff)
  then have "findOne (field_is ''email'' (Some e)) (users s) =
        List.find (\<lambda>u. bson (map_of u ''email'') = e) (users s)" for e
    by (simp add: findOne_def)
  then show ?thesis
    by (simp add: verifyAdmin_def verifyAgent_def stored_role_def Let_def)
qed

theorem guards_use_stored_role_witness:
  "verifyAdmin \<lparr>email = JStr ''bob@example.org'', role = Some (JStr ''admin''), iat = 0, exp' = 1\<rparr>
     (example_state []) =
     Some \<lparr>status = 403, body = Message ''forbidden: admin only''\<rparr> \<and>
   verifyAdmin \<lparr>email = JStr ''bob@example.org'', role = Some (JStr ''agent''), iat = 5, exp' = 9\<rparr>
     (example_state []) =
     Some \<lparr>status = 403, body = Message ''forbidden: admin only''\<rparr> \<and>
   verifyAgent \<lparr>email = JStr ''bob@example.org'', role = Some (JStr ''admin''), iat = 0, exp' = 1\<rparr>
     (example_state []) = None \<and>
   verifyAgent \<lparr>email = JStr ''bob@example.org'', role = Some (JStr ''agent''), iat = 5, exp' = 9\<rparr>
     (example_state []) = None"
proof -
  have r: "stored_role (JStr ''bob@example.org'') (example_state []) = Some (JStr ''agent'')"
    by (simp add: stored_role_def example_state_def example_users_def bson_def)
  show ?thesis
    using guards_use_stored_role
      [of "\<lparr>email = JStr ''bob@example.org'', role = Some (JStr ''admin''), iat = 0, exp' = 1\<rparr>"
          "example_state []"
          "\<lparr>email = JStr ''bob@example.org'', role = Some (JStr ''agent''), iat = 5, exp' = 9\<rparr>"]
      guards_use_stored_role
      [of "\<lparr>email = JStr ''bob@example.org'', role = Some (JStr ''agent''), iat = 5, exp' = 9\<rparr>"
          "example_state []"
          "\<lparr>email = JStr ''bob@example.org'', role = Some (JStr ''admin''), iat = 0, exp' = 1\<rparr>"]
    by (simp add: r)
qed

section \<open>Tokens\<close>

text \<open>
  C4. A request with an identity (a truthy email) and any role, on a server with a signing
  key, is answered with a token. Presented as the second piece of the authorization header,
  that token verifies to claims with this email and this role at every time before its
  expiry, 2592000 seconds (30 days) after issue, and is answered with 403 from the expiry
  time on.
\<close>

theorem token_round_trip:
  assumes "truthy (map_of user ''email'')" and "secret \<noteq> []"
  shows "\<exists>t. post_jwt secret now (Some user) = send 200 (Token t) \<and>
           (\<forall>clock < now + 2592000.
              verifyToken secret clock (Some [scheme, t]) =
                Inr \<lparr>email = bson (map_of user ''email''), role = map_of user ''role'',
                     iat = now, exp' = now + 2592000\<rparr>) \<and>
           (\<forall>clock \<ge> now + 2592000.
              verifyToken secret clock (Some [scheme, t]) =
                Inl \<lparr>status = 403, body = Message ''Forbidden''\<rparr>)"
proof -
  let ?t = "Signed \<lparr>email = bson (map_of user ''email''), role = map_of user ''role'',
                     iat = now, exp' = now + 2592000\<rparr> secret"
  have "post_jwt secret now (Some user) = send 200 (Token ?t)"
    using assms by (simp add: post_jwt_def jwt_sign_def)
  moreover have "\<forall>clock < now + 2592000.
      verifyToken secret clock (Some [scheme, ?t]) =
        Inr \<lparr>email = bson (map_of user ''email''), role = map_of user ''role'',
             iat = now, exp' = now + 2592000\<rparr>"
    using assms(2) by (simp add: verifyToken_def jwt_verify_def)
  moreover have "\<forall>clock \<ge> now + 2592000.
      verifyToken secret clock (Some [scheme, ?t]) =
        Inl \<lparr>status = 403, body = Message ''Forbidden''\<rparr>"
    using assms(2) by (simp add: verifyToken_def jwt_verify_def)
  ultimately show ?thesis by blast
qed

theorem token_round_trip_witness:
  "truthy (map_of [(''email'', JStr ''ann@example.org''), (''role'', JStr ''admin'')] ''email'') \<and>
   (\<exists>t. post_jwt ''key'' 1000 (Some [(''email'', JStr ''ann@example.org''), (''role'', JStr ''admin'')]) =
          send 200 (Token t) \<and>
        verifyToken ''key'' 2592999 (Some [Other ''Bearer'', t]) =
          Inr \<lparr>email = JStr ''ann@example.org'', role = Some (JStr ''admin''),
               iat = 1000, exp' = 2593000\<rparr> \<and>
        verifyToken ''key'' 2593000 (Some [Other ''Bearer'', t]) =
          Inl \<lparr>status = 403, body = Message ''Forbidden''\<rparr>)"
proof -
  have h: "truthy (map_of [(''email'', JStr ''ann@example.org''), (''role'', JStr ''admin'')] ''email'')"
    by simp
  have k: "''key'' \<noteq> []" by simp
  obtain t where
    t: "post_jwt ''key'' 1000 (Some [(''email'', JStr ''ann@example.org''), (''role'', JStr ''admin'')]) =
          send 200 (Token t)"
    and before: "\<forall>clock < 1000 + 2592000.
      verifyToken ''key'' clock (Some [Other ''Bearer'', t]) =
        Inr \<lparr>email = bson (map_of [(''email'', JStr ''ann@example.org''), (''role'', JStr ''admin'')] ''email''),
             role = map_of [(''email'', JStr ''ann@example.org''), (''role'', JStr ''admin'')] ''role'',
             iat = 1000, exp' = 1000 + 2592000\<rparr>"
    and after: "\<forall>clock \<ge> 1000 + 2592000.
      verifyToken ''key'' clock (Some [Other ''Bearer'', t]) =
        Inl \<lparr>status = 403, body = Message ''Forbidden''\<rparr>"
    using token_round_trip [OF h k, of 1000 "Other ''Bearer''"] by blast
  have b: "verifyToken ''key'' 2592999 (Some [Other ''Bearer'', t]) =
          Inr \<lparr>email = JStr ''ann@example.org'', role = Some (JStr ''admin''),
               iat = 1000, exp' = 2593000\<rparr>"
    using before [rule_format, of 2592999] by (simp add: bson_def)
  have a: "verifyToken ''key'' 2593000 (Some [Other ''Bearer'', t]) =
          Inl \<lparr>status = 403, body = Message ''Forbidden''\<rparr>"
    using after [rule_format, of 2593000] by simp
  show ?thesis using h t a b by blast
qed

section \<open>Deleting and updating by id\<close>

text \<open>
  C7, as the code has it. An id that names no stored document: when it is a well-formed
  object id, each of the four delete handlers answers 404 and leaves the store as it was;
  when it is malformed, the handlers for properties, users and wishlist entries answer 500.
  In no case is the answer a success.
\<close>

theorem delete_unknown_id:
  "((\<forall>d \<in> set (properties s). \<not> id_matches idp d) \<longrightarrow>
      delete_property idp s =
        (case ObjectId idp of
           Inl _ \<Rightarrow> send 500 (Message ''Internal server error'')
         | Inr _ \<Rightarrow> send 404 (Message ''Property not found''), s)) \<and>
   ((\<forall>d \<in> set (users s). \<not> id_matches idp d) \<longrightarrow>
      delete_user idp s =
        (case ObjectId idp of
           Inl _ \<Rightarrow> send 500 (Message ''Server error'')
         | Inr _ \<Rightarrow> send 404 (Message ''User not found''), s)) \<and>
   ((\<forall>d \<in> set (wishlists s). \<not> id_matches idp d) \<longrightarrow>
      delete_wishlist idp s =
        (case ObjectId idp of
           Inl _ \<Rightarrow> send 500 (Message ''Internal server error'')
         | Inr _ \<Rightarrow> send 404 (Message ''Wishlist item not found''), s)) \<and>
   ((\<forall>d \<in> set (reviews s). \<not> id_matches idp d) \<longrightarrow>
      (\<forall>oid. ObjectId idp = Inr oid \<longrightarrow>
         delete_review idp s = (send 404 (Success False ''Review not found''), s)) \<and>
      (\<forall>b. fst (delete_review idp s) \<noteq> send 200 b))"
proof (cases "ObjectId idp")
  case (Inl e)
  then show ?thesis
    by (simp add: delete_property_def delete_user_def delete_wishlist_def delete_review_def
        send_def)
next
  case (Inr oid)
  have p: "delete_property idp s = (send 404 (Message ''Property not found''), s)"
    if "\<forall>d \<in> set (properties s). \<not> id_matches idp d"
    using that Inr by (simp add: id_matches_def delete_property_def deleteOne_none)
  have u: "delete_user idp s = (send 404 (Message ''User not found''), s)"
    if "\<forall>d \<in> set (users s). \<not> id_matches idp d"
    using that Inr by (simp add: id_matches_def delete_user_def findOne_none)
  have w: "delete_wishlist idp s = (send 404 (Message ''Wishlist item not found''), s)"
    if "\<forall>d \<in> set (wishlists s). \<not> id_matches idp d"
    using that Inr by (simp add: id_matches_def delete_wishlist_def deleteOne_none)
  have r: "delete_review idp s = (send 404 (Success False ''Review not found''), s)"
    if "\<forall>d \<in> set (reviews s). \<not> id_matches idp d"
    using that Inr by (simp add: id_matches_def delete_review_def deleteOne_none)
  show ?thesis using p u w r Inr by (simp add: send_def)
qed

theorem delete_unknown_id_witness:
  "list_all (\<lambda>d. \<not> id_matches ''0000000000000000000000ff'' d)
     (properties (example_state []) @ users (example_state [])) \<and>
   delete_property ''0000000000000000000000ff'' (example_state []) =
     (send 404 (Message ''Property not found''), example_state []) \<and>
   delete_user ''0000000000000000000000ff'' (example_state []) =
     (send 404 (Message ''User not found''), example_state []) \<and>
   delete_wishlist ''0000000000000000000000ff'' (example_state []) =
     (send 404 (Message ''Wishlist item not found''), example_state []) \<and>
   delete_review ''0000000000000000000000ff'' (example_state []) =
     (send 404 (Success False ''Review not found''), example_state [])"
proof -
  have o: "ObjectId ''0000000000000000000000ff'' = Inr ''0000000000000000000000ff''"
    by (simp add: ObjectId_def hex_digit_def lower_hex_def)
  have p: "\<forall>d \<in> set (properties (example_state [])). \<not> id_matches ''0000000000000000000000ff'' d"
    by (simp add: id_matches_def o by_id_def example_state_def example_properties_def)
  have u: "\<forall>d \<in> set (users (example_state [])). \<not> id_matches ''0000000000000000000000ff'' d"
    by (simp add: id_matches_def o by_id_def example_state_def example_users_def)
  have w: "\<forall>d \<in> set (wishlists (example_state [])). \<not> id_matches ''0000000000000000000000ff'' d"
    by (simp add: example_state_def)
  have r: "\<forall>d \<in> set (reviews (example_state [])). \<not> id_matches ''0000000000000000000000ff'' d"
    by (simp add: example_state_def)
  show ?thesis
    using p u w r delete_unknown_id [of "example_state []" "''0000000000000000000000ff''"]
    by (auto simp: o list_all_iff)
qed

text \<open>
  The claim as it was stated fails on a malformed id: no property is stored under
  \<open>abc\<close>, and the answer is 500, not 404.
\<close>

theorem delete_malformed_id_counterexample:
  "delete_property ''abc'' (example_state []) =
     (send 500 (Message ''Internal server error''), example_state []) \<and>
   send 500 (Message ''Internal server error'') \<noteq> send 404 (Message ''Property not found'') \<and>
   \<not> id_matches ''abc'' (example_properties ! 0) \<and>
   properties (example_state []) = [example_properties ! 0]"
  by (simp add: delete_property_def ObjectId_def id_matches_def send_def example_state_def
      example_properties_def)

text \<open>
  C3, as the code has it. With a well-formed id: the property update, the offer rejection
  and the mark-bought update answer 404 when no document has the id and also when the
  document exists and the update leaves it unchanged (modify count zero). The three user
  updates test the match count instead: 404 when no user has the id, success for every
  stored user, changed or not. Verifying or rejecting a property sends the update result
  itself with status 200.
\<close>

theorem update_not_found_rule:
  assumes "ObjectId idp = Inr oid"
  shows
  "((\<forall>d \<in> set (properties s). \<not> by_id oid d) \<longrightarrow>
      put_property idp (Some sd) s =
        (send 404 (Message ''Property not found or not modified''), s)) \<and>
   (unique_ids (properties s) \<and> xp \<in> set (properties s) \<and> by_id oid xp \<and>
    set_fields sd xp = xp \<longrightarrow>
      put_property idp (Some sd) s =
        (send 404 (Message ''Property not found or not modified''), s)) \<and>
   ((\<forall>d \<in> set (offers s). \<not> by_id oid d) \<longrightarrow>
      offers_bought idp (Some b) s = (send 404 (Message ''Offer not found or already updated''), s) \<and>
      offers_reject idp s = (send 404 (Message ''Offer not found or already updated''), s)) \<and>
   (unique_ids (offers s) \<and> xo \<in> set (offers s) \<and> by_id oid xo \<and>
    map_of xo ''status'' = Some (JStr ''bought'') \<and>
    map_of xo ''transactionId'' = Some (bson (map_of b ''transactionId'')) \<longrightarrow>
      offers_bought idp (Some b) s = (send 404 (Message ''Offer not found or already updated''), s)) \<and>
   (unique_ids (offers s) \<and> xo \<in> set (offers s) \<and> by_id oid xo \<and>
    map_of xo ''status'' = Some (JStr ''rejected'') \<longrightarrow>
      offers_reject idp s = (send 404 (Message ''Offer not found or already updated''), s)) \<and>
   ((\<forall>d \<in> set (users s). \<not> by_id oid d) \<longrightarrow>
      users_admin idp s = (send 404 (Message ''User not found''), s) \<and>
      users_agent idp s = (send 404 (Message ''User not found''), s) \<and>
      users_fraud idp s = (send 404 (Message ''User not found''), s)) \<and>
   (unique_ids (users s) \<and> xu \<in> set (users s) \<and> by_id oid xu \<longrightarrow>
      fst (users_admin idp s) = send 200 (Success True ''User promoted to admin'') \<and>
      fst (users_agent idp s) = send 200 (Success True ''User promoted to agent'') \<and>
      fst (users_fraud idp s) = send 200 (Success True ''User marked as fraud'')) \<and>
   (\<exists>r. fst (properties_verify idp s) = send 200 (Updated r)) \<and>
   (\<exists>r. fst (properties_reject idp s) = send 200 (Updated r))"
proof -
  have p0: "put_property idp (Some sd) s =
      (send 404 (Message ''Property not found or not modified''), s)"
    if "\<forall>d \<in> set (properties s). \<not> by_id oid d"
    using that assms by (simp add: put_property_def updateOne_none)
  have p1: "put_property idp (Some sd) s =
      (send 404 (Message ''Property not found or not modified''), s)"
    if "unique_ids (properties s)" "xp \<in> set (properties s)" "by_id oid xp" "set_fields sd xp = xp"
  proof -
    have "updateOne (by_id oid) sd (properties s) =
        (Inr \<lparr>matchedCount = 1, modifiedCount = 0\<rparr>, properties s)"
      using that by (intro updateOne_noop) (simp_all add: unique_ids_def)
    then show ?thesis using assms by (simp add: put_property_def)
  qed
  have o0: "offers_bought idp (Some b) s =
      (send 404 (Message ''Offer not found or already updated''), s) \<and>
      offers_reject idp s = (send 404 (Message ''Offer not found or already updated''), s)"
    if "\<forall>d \<in> set (offers s). \<not> by_id oid d"
    using that assms by (simp add: offers_bought_def offers_reject_def updateOne_none)
  have o1: "offers_bought idp (Some b) s =
      (send 404 (Message ''Offer not found or already updated''), s)"
    if "unique_ids (offers s)" "xo \<in> set (offers s)" "by_id oid xo"
      "map_of xo ''status'' = Some (JStr ''bought'')"
      "map_of xo ''transactionId'' = Some (bson (map_of b ''transactionId''))"
  proof -
    have "set_fields [(''status'', JStr ''bought''),
            (''transactionId'', bson (map_of b ''transactionId''))] xo = xo"
      using that(4,5) by (simp add: set_fields_def update_triv)
    then have "updateOne (by_id oid) [(''status'', JStr ''bought''),
            (''transactionId'', bson (map_of b ''transactionId''))] (offers s) =
        (Inr \<lparr>matchedCount = 1, modifiedCount = 0\<rparr>, offers s)"
      using that(1-3) by (intro updateOne_noop) (simp_all add: unique_ids_def)
    then show ?thesis using assms by (simp add: offers_bought_def)
  qed
  have o2: "offers_reject idp s = (send 404 (Message ''Offer not found or already updated''), s)"
    if "unique_ids (offers s)" "xo \<in> set (offers s)" "by_id oid xo"
      "map_of xo ''status'' = Some (JStr ''rejected'')"
  proof -
    have "set_fields [(''status'', JStr ''rejected'')] xo = xo"
      using that(4) by (simp add: set_fields_def update_triv)
    then have "updateOne (by_id oid) [(''status'', JStr ''rejected'')] (offers s) =
        (Inr \<lparr>matchedCount = 1, modifiedCount = 0\<rparr>, offers s)"
      using that(1-3) by (intro updateOne_noop) (simp_all add: unique_ids_def)
    then show ?thesis using assms by (simp add: offers_reject_def)
  qed
  have u0: "users_patch k v msg idp s = (send 404 (Message ''User not found''), s)"
    if "\<forall>d \<in> set (users s). \<not> by_id oid d" for k v msg
    using that assms by (simp add: users_patch_def updateOne_none)
  have u1: "fst (users_patch k v msg idp s) = send 200 (Success True msg)"
    if "unique_ids (users s)" "xu \<in> set (users s)" "by_id oid xu" "k \<noteq> ''_id''" for k v msg
  proof -
    have "updateOne (by_id oid) [(k, v)] (users s) =
        (Inr \<lparr>matchedCount = 1, modifiedCount = (if AList.update k v xu = xu then 0 else 1)\<rparr>,
         map (\<lambda>d. if by_id oid d then AList.update k v d else d) (users s))"
      using that by (intro updateOne_by_id) (simp_all add: unique_ids_def)
    then show ?thesis using assms by (simp add: users_patch_def)
  qed
  have v: "\<exists>r. fst (properties_status st msg idp s) = send 200 (Updated r)" for st msg
  proof -
    obtain r ds' where "updateOne (by_id oid) [(''status'', JStr st)] (properties s) = (Inr r, ds')"
      using updateOne_single_ok [of "''status''" "by_id oid" "JStr st" "properties s"] by auto
    then show ?thesis using assms by (auto simp: properties_status_def)
  qed
  show ?thesis
    using p0 p1 o0 o1 o2 u0 u1 v
    unfolding users_admin_def users_agent_def users_fraud_def properties_verify_def
      properties_reject_def
    by (intro conjI impI) simp_all
qed

theorem update_not_found_rule_witness:
  "set_fields [(''title'', JStr ''Villa'')] (example_properties ! 0) = example_properties ! 0 \<and>
   put_property ''0000000000000000000000d1'' (Some [(''title'', JStr ''Villa'')])
     (example_state example_offers) =
     (send 404 (Message ''Property not found or not modified''), example_state example_offers) \<and>
   offers_bought ''0000000000000000000000a3'' (Some [(''transactionId'', JStr ''tx123'')])
     (example_state example_offers) =
     (send 404 (Message ''Offer not found or already updated''), example_state example_offers) \<and>
   offers_reject ''0000000000000000000000ff'' (example_state example_offers) =
     (send 404 (Message ''Offer not found or already updated''), example_state example_offers) \<and>
   users_admin ''0000000000000000000000ff'' (example_state example_offers) =
     (send 404 (Message ''User not found''), example_state example_offers) \<and>
   map_of (example_users ! 0) ''role'' = Some (JStr ''admin'') \<and>
   fst (users_admin ''0000000000000000000000b1'' (example_state example_offers)) =
     send 200 (Success True ''User promoted to admin'')"
proof -
  let ?s = "example_state example_offers"
  have d1: "ObjectId ''0000000000000000000000d1'' = Inr ''0000000000000000000000d1''"
    and a3: "ObjectId ''0000000000000000000000a3'' = Inr ''0000000000000000000000a3''"
    and b1: "ObjectId ''0000000000000000000000b1'' = Inr ''0000000000000000000000b1''"
    and ff: "ObjectId ''0000000000000000000000ff'' = Inr ''0000000000000000000000ff''"
    by (simp_all add: ObjectId_def hex_digit_def lower_hex_def)
  have noop: "set_fields [(''title'', JStr ''Villa'')] (example_properties ! 0) =
      example_properties ! 0"
    by (simp add: set_fields_def example_properties_def)
  have p: "unique_ids (properties ?s) \<and> example_properties ! 0 \<in> set (properties ?s) \<and>
      by_id ''0000000000000000000000d1'' (example_properties ! 0)"
    by (simp add: unique_ids_def by_id_def example_state_def example_properties_def)
  have o: "unique_ids (offers ?s) \<and> example_offers ! 2 \<in> set (offers ?s) \<and>
      by_id ''0000000000000000000000a3'' (example_offers ! 2) \<and>
      map_of (example_offers ! 2) ''status'' = Some (JStr ''bought'') \<and>
      map_of (example_offers ! 2) ''transactionId'' =
        Some (bson (map_of [(''transactionId'', JStr ''tx123'')] ''transactionId''))"
    by (simp add: unique_ids_def by_id_def bson_def example_state_def example_offers_def)
  have u: "unique_ids (users ?s) \<and> example_users ! 0 \<in> set (users ?s) \<and>
      by_id ''0000000000000000000000b1'' (example_users ! 0)"
    by (simp add: unique_ids_def by_id_def example_state_def example_users_def)
  have n: "(\<forall>d \<in> set (offers ?s). \<not> by_id ''0000000000000000000000ff'' d) \<and>
      (\<forall>d \<in> set (users ?s). \<not> by_id ''0000000000000000000000ff'' d)"
    by (simp add: by_id_def example_state_def example_offers_def example_users_def)
  have r: "map_of (example_users ! 0) ''role'' = Some (JStr ''admin'')"
    by (simp add: example_users_def)
  have 1: "put_property ''0000000000000000000000d1'' (Some [(''title'', JStr ''Villa'')]) ?s =
      (send 404 (Message ''Property not found or not modified''), ?s)"
    using update_not_found_rule
      [OF d1, of ?s "[(''title'', JStr ''Villa'')]" "example_properties ! 0"] p noop
    by simp
  have 2: "offers_bought ''0000000000000000000000a3'' (Some [(''transactionId'', JStr ''tx123'')]) ?s =
      (send 404 (Message ''Offer not found or already updated''), ?s)"
    using update_not_found_rule
      [OF a3, of ?s _ _ "[(''transactionId'', JStr ''tx123'')]" "example_offers ! 2"] o
    by simp
  have 3: "fst (users_admin ''0000000000000000000000b1'' ?s) =
      send 200 (Success True ''User promoted to admin'')"
    using update_not_found_rule [OF b1, of ?s _ _ _ _ "example_users ! 0"] u
    by simp
  have 4: "offers_reject ''0000000000000000000000ff'' ?s =
      (send 404 (Message ''Offer not found or already updated''), ?s) \<and>
    users_admin ''0000000000000000000000ff'' ?s = (send 404 (Message ''User not found''), ?s)"
    using update_not_found_rule [OF ff, of ?s] n
    by simp
  show ?thesis
    using noop r 1 2 3 4 by simp
qed

text \<open>
  The claim as it was stated fails on the user updates: promoting a user who is an admin
  already changes no document (modify count zero), and the answer is the success message.
\<close>

theorem users_admin_noop_counterexample:
  "fst (updateOne (by_id ''0000000000000000000000b1'') [(''role'', JStr ''admin'')]
          (users (example_state []))) = Inr \<lparr>matchedCount = 1, modifiedCount = 0\<rparr> \<and>
   users_admin ''0000000000000000000000b1'' (example_state []) =
     (send 200 (Success True ''User promoted to admin''), example_state [])"
  by (simp add: users_admin_def users_patch_def ObjectId_def hex_digit_def lower_hex_def
      by_id_def apply_set_def set_fields_def example_state_def example_users_def)

section \<open>The payment intent\<close>

text \<open>
  For every request the currency sent to the payment processor is \<open>usd\<close>, and for a
  whole-number price whose product with 100 is at most \<open>2 ^ 53\<close> in size the amount
  sent is that product.
\<close>

lemma payment_currency:
  "currency (payment_intent_params str2num lead b) = ''usd''"
  by (simp add: payment_intent_params_def Let_def)

lemma payment_whole_price:
  assumes "map_of b ''price'' = Some (JNum (of_int n))" and "\<bar>n * 100\<bar> \<le> 2 ^ 53"
  shows "payment_intent_params str2num lead b =
           \<lparr>amount = Finite (of_int (n * 100)), currency = ''usd'',
            payment_method_types = [''card'']\<rparr>"
proof -
  have "\<bar>n\<bar> \<le> 2 ^ 53" using assms(2) by simp
  then have "fl (of_int n) = Finite (of_int n)" by (rule fl_of_int)
  moreover have "(of_int n :: rat) * 100 = of_int (n * 100)" by simp
  ultimately have prod: "js_times (ToNumber str2num (map_of b ''price'')) (Finite 100) =
      Finite (of_int (n * 100))"
    using assms fl_of_int [of "n * 100"] by (simp add: ToNumber_def)
  have cut: "parseInt lead (Finite (of_int (n * 100))) = Finite (of_int (n * 100))"
  proof (cases "n = 0")
    case True
    then show ?thesis by (simp add: parseInt_def)
  next
    case False
    then have "1 \<le> \<bar>n * 100\<bar>" by simp
    then have "(1::rat) \<le> \<bar>of_int (n * 100)\<bar>"
      by (metis of_int_1 of_int_abs of_int_le_iff)
    moreover have "min_decimal \<le> 1" by (simp add: min_decimal_def)
    ultimately have lo: "min_decimal \<le> \<bar>of_int (n * 100) :: rat\<bar>" by linarith
    have "\<bar>n * 100\<bar> < 10 ^ 21" using assms(2) by simp
    then have "(of_int \<bar>n * 100\<bar> :: rat) < of_int (10 ^ 21)" by (simp only: of_int_less_iff)
    then have hi: "\<bar>of_int (n * 100) :: rat\<bar> < 10 ^ 21" by simp
    have nz: "(of_int (n * 100) :: rat) \<noteq> 0" using False by simp
    have "trunc (of_int (n * 100)) = n * 100"
      by (rule trunc_of_int)
    then show ?thesis
      unfolding parseInt_def using lo hi nz by (simp del: of_int_mult)
  qed
  show ?thesis
    unfolding payment_intent_params_def Let_def prod cut by simp
qed

lemma fl_19_99: "fl (1999 / 100) = Finite (5626684784446013 / 281474976710656)"
  by code_simp

lemma fl_19_99_times_100:
  "fl (5626684784446013 / 281474976710656 * 100) = Finite (8791694975696895 / 4398046511104)"
  by code_simp

lemma trunc_19_99_times_100: "trunc (8791694975696895 / 4398046511104) = 1998"
  by code_simp

text \<open>
  C9. The amount sent to the payment processor is to be the price multiplied by 100, with
  the currency \<open>usd\<close>. The code sends the currency \<open>usd\<close>, but at the price
  \<open>19.99\<close> it sends the amount 1998, a cent less than the product 1999: the double
  nearest to \<open>19.99\<close> times 100 rounds to the double just below 1999, and
  \<open>parseInt\<close> cuts it off at the decimal point.
\<close>

theorem payment_19_99:
  "payment_intent_params str2num lead [(''price'', JNum (1999 / 100))] =
     \<lparr>amount = Finite 1998, currency = ''usd'', payment_method_types = [''card'']\<rparr> \<and>
   Finite 1998 \<noteq> Finite (1999 / 100 * 100)"
proof -
  have "min_decimal \<le> \<bar>8791694975696895 / 4398046511104\<bar> \<and> \<bar>8791694975696895 / 4398046511104 :: rat\<bar> < 10 ^ 21"
    by (simp add: min_decimal_def)
  then have "parseInt lead (Finite (8791694975696895 / 4398046511104)) = Finite 1998"
    unfolding parseInt_def by (simp add: trunc_19_99_times_100)
  moreover have "js_times (ToNumber str2num (Some (JNum (1999 / 100)))) (Finite 100) =
      Finite (8791694975696895 / 4398046511104)"
    by (simp only: ToNumber_def option.case json.case fl_19_99 js_times.simps
        fl_19_99_times_100)
  ultimately show ?thesis
    by (simp add: payment_intent_params_def Let_def)
qed

end
